theory Spec2Isabelle
  imports Main "HOL-Library.AList"
begin

section \<open>Exceptions\<close>

text \<open>
  The Python exceptions the module can raise or let through. \<open>StoreFault\<close> stands for
  any failure of the backing store other than a missing key (an I/O error of the backend),
  \<open>RandomFault\<close> for a random source that cannot supply bits.
\<close>

datatype exn =
    KeyError
  | ValueError
  | AttributeError
  | RuntimeError
  | StoreFault string
  | RandomFault string

section \<open>Hexadecimal formatting and parsing\<close>

text \<open>
  Python's \<open>'%x' % n\<close>: lowercase hexadecimal digits, most significant first, no prefix and
  no padding, \<open>0\<close> for zero, and a leading minus sign for a negative integer.
\<close>

definition hexdigit :: "nat \<Rightarrow> char" where
  "hexdigit d = ''0123456789abcdef'' ! d"

function hex_nat :: "nat \<Rightarrow> string" where
  "hex_nat n = (if n < 16 then [hexdigit n] else hex_nat (n div 16) @ [hexdigit (n mod 16)])"
  by pat_completeness auto
termination
  by (relation "measure id") auto

declare hex_nat.simps [simp del]

definition fmt_x :: "int \<Rightarrow> string" where
  "fmt_x n = (if n < 0 then CHR ''-'' # hex_nat (nat (- n)) else hex_nat (nat n))"

text \<open>The character class \<open>[0-9a-f]\<close> of \<open>KVSession.key_regex\<close>.\<close>

definition is_hex :: "char \<Rightarrow> bool" where
  "is_hex c = (c \<in> set ''0123456789abcdef'')"

text \<open>
  \<open>int(s, 16)\<close> on the strings the module passes to it: the group \<open>expires\<close> of a key
  that matched \<open>key_regex\<close>, a nonempty string over \<open>[0-9a-f]\<close>.
\<close>

definition hexval :: "char \<Rightarrow> nat" where
  "hexval c = length (takeWhile (\<lambda>d. d \<noteq> c) ''0123456789abcdef'')"

definition int16 :: "string \<Rightarrow> int" where
  "int16 s = int (foldl (\<lambda>acc c. 16 * acc + hexval c) 0 s)"

section \<open>generate_session_key\<close>

text \<open>
  The argument \<open>expires\<close> is \<open>None\<close>, an integer UNIX timestamp, or an object with a
  \<open>utctimetuple\<close> method (a \<open>datetime\<close>). A float timestamp is outside this model.
\<close>

datatype 'dt expires = ExpNone | ExpInt int | ExpDatetime 'dt

text \<open>
  A random source is what its \<open>getrandbits\<close> answers to a request for a number of bits:
  an integer, or an exception.
\<close>

type_synonym random_source = "int \<Rightarrow> exn + int"

text \<open>
  \<open>timegm\<close> is \<open>calendar.timegm(d.utctimetuple())\<close> of the standard library, the UTC
  epoch seconds of a datetime.
\<close>

definition generate_session_key ::
  "('dt \<Rightarrow> int) \<Rightarrow> random_source \<Rightarrow> 'dt expires \<Rightarrow> int \<Rightarrow> exn + string" where
  "generate_session_key timegm random_source expires bits =
     (let expires' = (case expires of
                        ExpNone \<Rightarrow> 0
                      | ExpInt n \<Rightarrow> n
                      | ExpDatetime d \<Rightarrow> timegm d)
      in case random_source bits of
           Inl e \<Rightarrow> Inl e
         | Inr idbits \<Rightarrow> Inr (fmt_x idbits @ ''_'' @ fmt_x expires'))"

section \<open>The key-value store\<close>

text \<open>
  The interface of \<open>simplekv.KeyValueStore\<close> that the module uses, over a store state
  \<open>'st\<close>; each operation returns its result or the exception it raises.
\<close>

record 'st kvstore =
  store_get :: "'st \<Rightarrow> string \<Rightarrow> exn + string"
  store_put :: "'st \<Rightarrow> string \<Rightarrow> string \<Rightarrow> exn + (string \<times> 'st)"
  store_delete :: "'st \<Rightarrow> string \<Rightarrow> exn + 'st"
  store_keys :: "'st \<Rightarrow> exn + string list"

text \<open>
  Modelled from the spec: the store is an external collaborator (section 6 of the
  specification), not part of this repository. \<open>DictStore\<close> is an in-memory store with that
  contract: \<open>put\<close> returns the key it stored under, \<open>get\<close> fails with not-found on an absent
  key, \<open>delete\<close> of an absent key is a no-op, \<open>keys\<close> enumerates the stored keys.
\<close>

definition DictStore :: "(string \<times> string) list kvstore" where
  "DictStore =
     \<lparr> store_get = (\<lambda>d k. case map_of d k of None \<Rightarrow> Inl KeyError | Some v \<Rightarrow> Inr v),
       store_put = (\<lambda>d k v. Inr (k, AList.update k v d)),
       store_delete = (\<lambda>d k. Inr (AList.delete k d)),
       store_keys = (\<lambda>d. Inr (map fst d)) \<rparr>"

section \<open>The application object\<close>

text \<open>
  The attributes and configuration entries of the Flask application that the module reads
  and writes. \<open>None\<close> is an attribute or a configuration key that is not set.
\<close>

record 'st app =
  session_kvstore :: "'st option"
  SESSION_KEY_BITS :: "int option"
  SESSION_RANDOM_SOURCE :: "random_source option"
  app_secret_key :: "string option"
  open_session_replaced :: bool

section \<open>Library functions of the session class\<close>

text \<open>
  What \<open>Session\<close> inherits and calls: the serialisation of the parent class
  \<open>flask.Session\<close> (a payload string from the secret key, the data mapping and the expiry;
  a data mapping from a payload string and the secret key), the digest of
  \<open>hmac.new(secret, msg, hash_method)\<close> as a byte string, and \<open>timegm\<close> as above.
\<close>

record ('v, 'dt) library =
  super_serialize :: "string \<Rightarrow> (string \<times> 'v) list \<Rightarrow> 'dt expires \<Rightarrow> exn + string"
  super_unserialize :: "string \<Rightarrow> string \<Rightarrow> (string \<times> 'v) list"
  hmac_digest :: "string \<Rightarrow> string \<Rightarrow> string"
  timegm_utc :: "'dt \<Rightarrow> int"

text \<open>\<open>mac.hexdigest()\<close>: two lowercase hexadecimal digits for each byte of the digest.\<close>

definition hexlify :: "string \<Rightarrow> string" where
  "hexlify bs = concat (map (\<lambda>b. [hexdigit (of_char b div 16), hexdigit (of_char b mod 16)]) bs)"

definition hexdigest :: "('v, 'dt) library \<Rightarrow> string \<Rightarrow> string \<Rightarrow> string" where
  "hexdigest L secret msg = hexlify (hmac_digest L secret msg)"

section \<open>Session\<close>

text \<open>
  A session is its data mapping (a dictionary, as an association list with distinct keys),
  its secret key and the attribute \<open>__kvstore_key\<close>, \<open>None\<close> while the attribute is not set.
\<close>

record 'v session =
  items :: "(string \<times> 'v) list"
  secret_key :: string
  kvstore_key :: "string option"

text \<open>\<open>del self[key]\<close> for each key of a snapshot of the keys.\<close>

fun del_keys :: "string list \<Rightarrow> (string \<times> 'v) list \<Rightarrow> exn + (string \<times> 'v) list" where
  "del_keys [] m = Inr m"
| "del_keys (k # ks) m =
     (case map_of m k of
        None \<Rightarrow> Inl KeyError
      | Some _ \<Rightarrow> del_keys ks (AList.delete k m))"

text \<open>
  \<open>Session.destroy\<close>. The result is the session and the application after the call; a raised
  exception is the result \<open>Inl\<close>. Here and below, a call that raises returns the exception
  alone: what it had changed before it raised is not part of the result.
\<close>

definition destroy ::
  "'st kvstore \<Rightarrow> 'st app \<Rightarrow> 'v session \<Rightarrow> exn + ('v session \<times> 'st app)" where
  "destroy S current_app self =
     (case del_keys (map fst (items self)) (items self) of
        Inl e \<Rightarrow> Inl e
      | Inr m \<Rightarrow>
          (case session_kvstore current_app of
             None \<Rightarrow> Inl AttributeError
           | Some st \<Rightarrow>
               (case kvstore_key self of
                  None \<Rightarrow> Inl AttributeError
                | Some k \<Rightarrow>
                    (case store_delete S st k of
                       Inl e \<Rightarrow> Inl e
                     | Inr st' \<Rightarrow>
                         Inr (self\<lparr>items := m\<rparr>,
                              current_app\<lparr>session_kvstore := Some st'\<rparr>)))))"

text \<open>\<open>Session.serialize\<close>: the signed token, and the application with the store written.\<close>

definition serialize ::
  "'st kvstore \<Rightarrow> ('v, 'dt) library \<Rightarrow> 'st app \<Rightarrow> 'v session \<Rightarrow> 'dt expires
     \<Rightarrow> exn + (string \<times> 'st app)" where
  "serialize S L current_app self expires =
     (case super_serialize L (secret_key self) (items self) expires of
        Inl e \<Rightarrow> Inl e
      | Inr sdata \<Rightarrow>
          (case session_kvstore current_app of
             None \<Rightarrow> Inl AttributeError
           | Some st \<Rightarrow>
               (case SESSION_RANDOM_SOURCE current_app of
                  None \<Rightarrow> Inl KeyError
                | Some rs \<Rightarrow>
                    (case SESSION_KEY_BITS current_app of
                       None \<Rightarrow> Inl KeyError
                     | Some bits \<Rightarrow>
                         (case generate_session_key (timegm_utc L) rs expires bits of
                            Inl e \<Rightarrow> Inl e
                          | Inr k \<Rightarrow>
                              (case store_put S st k sdata of
                                 Inl e \<Rightarrow> Inl e
                               | Inr (key, st') \<Rightarrow>
                                   Inr (key @ ''_'' @ hexdigest L (secret_key self) key,
                                        current_app\<lparr>session_kvstore := Some st'\<rparr>)))))))"

text \<open>
  \<open>string.rsplit(sep, 1)\<close>: the parts before and after the last separator, or the whole
  string alone when it holds no separator.
\<close>

definition rsplit1 :: "char \<Rightarrow> string \<Rightarrow> string list" where
  "rsplit1 sep s =
     (if sep \<in> set s
      then [rev (tl (dropWhile (\<lambda>c. c \<noteq> sep) (rev s))), rev (takeWhile (\<lambda>c. c \<noteq> sep) (rev s))]
      else [s])"

text \<open>
  \<open>Session.unserialize\<close>. Unpacking the result of \<open>rsplit\<close> into two names raises
  \<open>ValueError\<close> unless it has two parts.
\<close>

definition unserialize ::
  "'st kvstore \<Rightarrow> ('v, 'dt) library \<Rightarrow> 'st app \<Rightarrow> string \<Rightarrow> string \<Rightarrow> exn + 'v session" where
  "unserialize S L current_app string secret =
     (case rsplit1 CHR ''_'' string of
        [key, mac_hexdigest] \<Rightarrow>
          (let finish = (\<lambda>sdata. Inr \<lparr> items = super_unserialize L sdata secret,
                                       secret_key = secret,
                                       kvstore_key = Some key \<rparr>)
           in if hexdigest L secret key = mac_hexdigest
              then (case session_kvstore current_app of
                      None \<Rightarrow> Inl AttributeError
                    | Some st \<Rightarrow>
                        (case store_get S st key of
                           Inr sdata \<Rightarrow> finish sdata
                         | Inl KeyError \<Rightarrow> finish ''''
                         | Inl e \<Rightarrow> Inl e))
              else finish '''')
      | _ \<Rightarrow> Inl ValueError)"

section \<open>KVSession\<close>

text \<open>
  \<open>key_regex.match(key)\<close> for \<open>^[0-9a-f]+_(?P<expires>[0-9a-f]+)$\<close>: the group \<open>expires\<close>
  of a match. In Python \<open>$\<close> matches at the end of the string and also just before a newline
  that ends the string.
\<close>

definition key_regex_match :: "string \<Rightarrow> string option" where
  "key_regex_match key =
     (let ident = takeWhile is_hex key; rest = dropWhile is_hex key
      in if ident = [] then None
         else (case rest of
                 [] \<Rightarrow> None
               | c # rest' \<Rightarrow>
                   if c \<noteq> CHR ''_'' then None
                   else (let expires = takeWhile is_hex rest'; tail = dropWhile is_hex rest'
                         in if expires = [] then None
                            else if tail = [] \<or> tail = [CHR 0x0A] then Some expires
                            else None)))"

record 'st KVSession =
  ks_app :: "'st app option"

text \<open>
  \<open>KVSession.init_app\<close>; \<open>system_random\<close> is the \<open>SystemRandom()\<close> that \<open>setdefault\<close> is
  given. The result is the extension object and the application.
\<close>

definition init_app ::
  "random_source \<Rightarrow> 'st KVSession \<Rightarrow> 'st app \<Rightarrow> 'st KVSession \<times> 'st app" where
  "init_app system_random self a =
     (let a1 = (case SESSION_KEY_BITS a of
                  None \<Rightarrow> a\<lparr>SESSION_KEY_BITS := Some 64\<rparr>
                | Some _ \<Rightarrow> a);
          a2 = (case SESSION_RANDOM_SOURCE a1 of
                  None \<Rightarrow> a1\<lparr>SESSION_RANDOM_SOURCE := Some system_random\<rparr>
                | Some _ \<Rightarrow> a1);
          a3 = a2\<lparr>open_session_replaced := True\<rparr>
      in (self\<lparr>ks_app := Some a3\<rparr>, a3))"

text \<open>
  \<open>KVSession.__init__(session_kvstore, app)\<close>: the attribute is assigned on \<open>app\<close> first,
  which raises \<open>AttributeError\<close> on \<open>None\<close>; an application object is always true.
\<close>

definition KVSession_init ::
  "random_source \<Rightarrow> 'st \<Rightarrow> 'st app option \<Rightarrow> exn + ('st KVSession \<times> 'st app)" where
  "KVSession_init system_random kvstore a =
     (case a of
        None \<Rightarrow> Inl AttributeError
      | Some a0 \<Rightarrow>
          Inr (init_app system_random \<lparr>ks_app = None\<rparr> (a0\<lparr>session_kvstore := Some kvstore\<rparr>)))"

text \<open>
  The loop of \<open>KVSession.cleanup_sessions\<close> over the keys of the store, at the time
  \<open>current_time = int(time.time())\<close>.
\<close>

fun cleanup_loop :: "'st kvstore \<Rightarrow> int \<Rightarrow> string list \<Rightarrow> 'st \<Rightarrow> exn + 'st" where
  "cleanup_loop S current_time [] st = Inr st"
| "cleanup_loop S current_time (key # keys) st =
     (case key_regex_match key of
        None \<Rightarrow> cleanup_loop S current_time keys st
      | Some m \<Rightarrow>
          (let key_expiry_time = int16 m
           in if current_time \<ge> key_expiry_time
              then (case store_delete S st key of
                      Inl e \<Rightarrow> Inl e
                    | Inr st' \<Rightarrow> cleanup_loop S current_time keys st')
              else cleanup_loop S current_time keys st))"

definition cleanup_sessions ::
  "'st kvstore \<Rightarrow> int \<Rightarrow> 'st KVSession \<Rightarrow> exn + 'st KVSession" where
  "cleanup_sessions S current_time self =
     (case ks_app self of
        None \<Rightarrow> Inl AttributeError
      | Some a \<Rightarrow>
          (case session_kvstore a of
             None \<Rightarrow> Inl AttributeError
           | Some st \<Rightarrow>
               (case store_keys S st of
                  Inl e \<Rightarrow> Inl e
                | Inr keys \<Rightarrow>
                    (case cleanup_loop S current_time keys st of
                       Inl e \<Rightarrow> Inl e
                     | Inr st' \<Rightarrow>
                         Inr (self\<lparr>ks_app := Some (a\<lparr>session_kvstore := Some st'\<rparr>)\<rparr>)))))"

section \<open>Notions used in the properties\<close>

text \<open>
  An expiry that \<open>generate_session_key\<close> can encode in the key format: none, or an
  instant that is not before the epoch.
\<close>

definition valid_expires :: "('dt \<Rightarrow> int) \<Rightarrow> 'dt expires \<Rightarrow> bool" where
  "valid_expires timegm expires =
     (case expires of ExpNone \<Rightarrow> True | ExpInt n \<Rightarrow> 0 \<le> n | ExpDatetime d \<Rightarrow> 0 \<le> timegm d)"

text \<open>
  The test that the loop of \<open>cleanup_sessions\<close> applies to a key before it deletes it: the
  key matches \<open>key_regex\<close> and the current time has reached the expiry it encodes.
\<close>

definition expired_key :: "int \<Rightarrow> string \<Rightarrow> bool" where
  "expired_key current_time key =
     (case key_regex_match key of None \<Rightarrow> False | Some m \<Rightarrow> current_time \<ge> int16 m)"

section \<open>A concrete library, application and stores\<close>

text \<open>
  Concrete instances of the parameters, on which the functions above are evaluated: a parent
  serialisation that writes each pair of a string-valued mapping as \<open>key=value&\<close>, a two-byte
  digest (the byte sums of the secret and of the message), an application whose random source
  answers \<open>0x1A2B\<close>, and a store whose \<open>get\<close> fails with a backend error.
\<close>

fun decode_pairs :: "string \<Rightarrow> string \<Rightarrow> bool \<Rightarrow> string \<Rightarrow> (string \<times> string) list" where
  "decode_pairs k v in_value [] = []"
| "decode_pairs k v in_value (c # cs) =
     (if c = CHR ''&'' then (rev k, rev v) # decode_pairs [] [] False cs
      else if in_value then decode_pairs k (c # v) True cs
      else if c = CHR ''='' then decode_pairs k v True cs
      else decode_pairs (c # k) v False cs)"

definition encode_pairs :: "(string \<times> string) list \<Rightarrow> string" where
  "encode_pairs m = concat (map (\<lambda>(k, v). k @ ''='' @ v @ ''&'') m)"

definition example_library :: "(string, int) library" where
  "example_library =
     \<lparr> super_serialize = (\<lambda>secret m expires. Inr (encode_pairs m)),
       super_unserialize = (\<lambda>sdata secret. decode_pairs [] [] False sdata),
       hmac_digest = (\<lambda>secret msg. [char_of (sum_list (map of_char secret) :: nat),
                                       char_of (sum_list (map of_char msg) :: nat)]),
       timegm_utc = (\<lambda>d. d) \<rparr>"

definition example_app :: "(string \<times> string) list \<Rightarrow> (string \<times> string) list app" where
  "example_app d =
     \<lparr> session_kvstore = Some d,
       SESSION_KEY_BITS = Some 16,
       SESSION_RANDOM_SOURCE = Some (\<lambda>bits. Inr 0x1A2B),
       app_secret_key = Some ''s3cr3t'',
       open_session_replaced = True \<rparr>"

definition faulty_store :: "(string \<times> string) list kvstore" where
  "faulty_store = DictStore \<lparr> store_get := (\<lambda>d k. Inl (StoreFault ''backend unreachable'')) \<rparr>"

section \<open>Hexadecimal digits\<close>

lemma hexdigit_all: "list_all (\<lambda>d. is_hex (hexdigit d) \<and> hexval (hexdigit d) = d) [0..<16]"
  by code_simp

lemma is_hex_hexdigit: "d < 16 \<Longrightarrow> is_hex (hexdigit d)"
  using hexdigit_all by (simp add: list_all_iff del: upt_Suc)

lemma hexval_hexdigit: "d < 16 \<Longrightarrow> hexval (hexdigit d) = d"
  using hexdigit_all by (simp add: list_all_iff del: upt_Suc)

lemma not_is_hex_underscore: "\<not> is_hex CHR ''_''"
  by (simp add: is_hex_def)

lemma not_is_hex_newline: "\<not> is_hex (CHR 0x0A)"
  by (simp add: is_hex_def)

lemma hex_nat_is_hex: "list_all is_hex (hex_nat n)"
proof (induction n rule: hex_nat.induct)
  case (1 n)
  show ?case
  proof (cases "n < 16")
    case True
    then show ?thesis by (simp add: hex_nat.simps[of n] is_hex_hexdigit)
  next
    case False
    with 1 show ?thesis by (simp add: hex_nat.simps[of n] is_hex_hexdigit)
  qed
qed

lemma hex_nat_nonempty: "hex_nat n \<noteq> []"
  by (subst hex_nat.simps) simp

lemma int16_hex_nat: "int16 (hex_nat n) = int n"
proof (induction n rule: hex_nat.induct)
  case (1 n)
  show ?case
  proof (cases "n < 16")
    case True
    then show ?thesis by (simp add: hex_nat.simps[of n] int16_def hexval_hexdigit)
  next
    case False
    with 1 have "foldl (\<lambda>acc c. 16 * acc + hexval c) 0 (hex_nat (n div 16)) = n div 16"
      by (simp add: int16_def)
    with False show ?thesis by (simp add: hex_nat.simps[of n] int16_def hexval_hexdigit)
  qed
qed

lemma fmt_x_nonneg: "0 \<le> n \<Longrightarrow> fmt_x n = hex_nat (nat n)"
  by (simp add: fmt_x_def)

lemma takeWhile_hex_prefix:
  "list_all is_hex h \<Longrightarrow> \<not> is_hex c \<Longrightarrow> takeWhile is_hex (h @ c # r) = h"
  by (simp add: list_all_iff takeWhile_append2)

lemma dropWhile_hex_prefix:
  "list_all is_hex h \<Longrightarrow> \<not> is_hex c \<Longrightarrow> dropWhile is_hex (h @ c # r) = c # r"
  by (simp add: list_all_iff dropWhile_append2)

lemma takeWhile_hex_all: "list_all is_hex h \<Longrightarrow> takeWhile is_hex h = h"
  by (simp add: list_all_iff)

lemma dropWhile_hex_all: "list_all is_hex h \<Longrightarrow> dropWhile is_hex h = []"
  by (simp add: list_all_iff)

lemma key_regex_match_shape:
  assumes "list_all is_hex ident" "ident \<noteq> []" "list_all is_hex ex" "ex \<noteq> []"
  shows "key_regex_match (ident @ ''_'' @ ex) = Some ex"
proof -
  have t: "takeWhile is_hex (ident @ CHR ''_'' # ex) = ident"
    and d: "dropWhile is_hex (ident @ CHR ''_'' # ex) = CHR ''_'' # ex"
    using assms(1) not_is_hex_underscore
    by (rule takeWhile_hex_prefix, rule dropWhile_hex_prefix)
  show ?thesis
    using assms(2,3,4)
    by (simp add: key_regex_match_def t d takeWhile_hex_all dropWhile_hex_all)
qed

lemma key_regex_match_shape_newline:
  assumes "list_all is_hex ident" "ident \<noteq> []" "list_all is_hex ex" "ex \<noteq> []"
  shows "key_regex_match (ident @ ''_'' @ ex @ [CHR 0x0A]) = Some ex"
proof -
  have t: "takeWhile is_hex (ident @ CHR ''_'' # ex @ [CHR 0x0A]) = ident"
    and d: "dropWhile is_hex (ident @ CHR ''_'' # ex @ [CHR 0x0A]) = CHR ''_'' # ex @ [CHR 0x0A]"
    using assms(1) not_is_hex_underscore
    by (rule takeWhile_hex_prefix, rule dropWhile_hex_prefix)
  have t2: "takeWhile is_hex (ex @ [CHR 0x0A]) = ex"
    and d2: "dropWhile is_hex (ex @ [CHR 0x0A]) = [CHR 0x0A]"
    using assms(3) not_is_hex_newline
    by (rule takeWhile_hex_prefix, rule dropWhile_hex_prefix)
  show ?thesis
    using assms(2,4)
    by (simp add: key_regex_match_def t d t2 d2)
qed

lemma key_regex_match_SomeD:
  assumes "key_regex_match key = Some ex"
  shows "\<exists>ident. ident \<noteq> [] \<and> list_all is_hex ident \<and> ex \<noteq> [] \<and> list_all is_hex ex \<and>
           (key = ident @ ''_'' @ ex \<or> key = ident @ ''_'' @ ex @ [CHR 0x0A])"
proof -
  define ident where "ident = takeWhile is_hex key"
  define rest where "rest = dropWhile is_hex key"
  have key: "key = ident @ rest"
    by (simp add: ident_def rest_def)
  have hi: "list_all is_hex ident"
    unfolding ident_def list_all_iff by (auto dest: set_takeWhileD)
  have unf: "key_regex_match key =
     (if ident = [] then None
      else (case rest of
              [] \<Rightarrow> None
            | c # rest' \<Rightarrow>
                if c \<noteq> CHR ''_'' then None
                else if takeWhile is_hex rest' = [] then None
                else if dropWhile is_hex rest' = [] \<or> dropWhile is_hex rest' = [CHR 0x0A]
                     then Some (takeWhile is_hex rest')
                else None))"
    unfolding key_regex_match_def ident_def rest_def Let_def by (rule refl)
  from assms unf have ne: "ident \<noteq> []"
    by (cases "ident = []") simp_all
  from assms unf ne obtain c rest' where rest: "rest = c # rest'"
    by (cases rest) simp_all
  define e' where "e' = takeWhile is_hex rest'"
  define t' where "t' = dropWhile is_hex rest'"
  have unf2: "key_regex_match key =
     (if c \<noteq> CHR ''_'' then None
      else if e' = [] then None
      else if t' = [] \<or> t' = [CHR 0x0A] then Some e'
      else None)"
    unfolding e'_def t'_def using unf ne rest by simp
  from assms unf2 have c: "c = CHR ''_''" and exne: "e' \<noteq> []"
    and tail: "t' = [] \<or> t' = [CHR 0x0A]" and ex: "ex = e'"
    by (auto split: if_splits)
  have he: "list_all is_hex ex"
    unfolding ex e'_def list_all_iff by (auto dest: set_takeWhileD)
  have "rest' = ex @ t'"
    unfolding ex e'_def t'_def by simp
  with tail have "rest' = ex \<or> rest' = ex @ [CHR 0x0A]"
    by auto
  with key rest c have "key = ident @ ''_'' @ ex \<or> key = ident @ ''_'' @ ex @ [CHR 0x0A]"
    by auto
  with ne hi exne he ex show ?thesis
    by blast
qed

section \<open>Splitting tokens and hexadecimal digests\<close>

lemma rsplit1_no_sep: "sep \<notin> set s \<Longrightarrow> rsplit1 sep s = [s]"
  by (simp add: rsplit1_def)

lemma rsplit1_last_sep:
  assumes "sep \<notin> set m"
  shows "rsplit1 sep (k @ sep # m) = [k, m]"
proof -
  have r: "rev (k @ sep # m) = rev m @ sep # rev k"
    by simp
  have "takeWhile (\<lambda>c. c \<noteq> sep) (rev m @ sep # rev k)
          = rev m @ takeWhile (\<lambda>c. c \<noteq> sep) (sep # rev k)"
    by (rule takeWhile_append2) (use assms in auto)
  then have t: "takeWhile (\<lambda>c. c \<noteq> sep) (rev m @ sep # rev k) = rev m"
    by simp
  have "dropWhile (\<lambda>c. c \<noteq> sep) (rev m @ sep # rev k)
          = dropWhile (\<lambda>c. c \<noteq> sep) (sep # rev k)"
    by (rule dropWhile_append2) (use assms in auto)
  then have d: "dropWhile (\<lambda>c. c \<noteq> sep) (rev m @ sep # rev k) = sep # rev k"
    by simp
  have "sep \<in> set (k @ sep # m)"
    by simp
  then show ?thesis
    unfolding rsplit1_def r t d by simp
qed

lemma of_char_div_16: "of_char b div 16 < (16::nat)"
proof -
  have "(of_char b :: nat) < 256"
    by (rule nat_of_char_less_256)
  then show ?thesis by arith
qed

lemma hexlify_is_hex: "list_all is_hex (hexlify bs)"
  by (induction bs) (simp_all add: hexlify_def is_hex_hexdigit of_char_div_16)

lemma length_hexlify: "length (hexlify bs) = 2 * length bs"
  by (induction bs) (simp_all add: hexlify_def)

lemma underscore_notin_hex: "list_all is_hex h \<Longrightarrow> CHR ''_'' \<notin> set h"
  using not_is_hex_underscore by (auto simp: list_all_iff)

lemma underscore_notin_hexdigest: "CHR ''_'' \<notin> set (hexdigest L secret msg)"
  unfolding hexdigest_def by (rule underscore_notin_hex) (rule hexlify_is_hex)

lemma length_hexdigest: "length (hexdigest L secret msg) = 2 * length (hmac_digest L secret msg)"
  by (simp add: hexdigest_def length_hexlify)

text \<open>The four ways through unserialize for a token with a separator.\<close>

lemma unserialize_bad_mac:
  assumes "rsplit1 CHR ''_'' string = [key, mac]" and "hexdigest L secret key \<noteq> mac"
  shows "unserialize S L current_app string secret =
           Inr \<lparr> items = super_unserialize L '''' secret, secret_key = secret,
                 kvstore_key = Some key \<rparr>"
  using assms by (simp add: unserialize_def)

lemma unserialize_found:
  assumes "rsplit1 CHR ''_'' string = [key, mac]" and "hexdigest L secret key = mac"
    and "session_kvstore current_app = Some st" and "store_get S st key = Inr sdata"
  shows "unserialize S L current_app string secret =
           Inr \<lparr> items = super_unserialize L sdata secret, secret_key = secret,
                 kvstore_key = Some key \<rparr>"
  using assms by (simp add: unserialize_def)

lemma unserialize_missing:
  assumes "rsplit1 CHR ''_'' string = [key, mac]" and "hexdigest L secret key = mac"
    and "session_kvstore current_app = Some st" and "store_get S st key = Inl KeyError"
  shows "unserialize S L current_app string secret =
           Inr \<lparr> items = super_unserialize L '''' secret, secret_key = secret,
                 kvstore_key = Some key \<rparr>"
  using assms by (simp add: unserialize_def)

lemma unserialize_store_error:
  assumes "rsplit1 CHR ''_'' string = [key, mac]" and "hexdigest L secret key = mac"
    and "session_kvstore current_app = Some st" and "store_get S st key = Inl e"
    and "e \<noteq> KeyError"
  shows "unserialize S L current_app string secret = Inl e"
  using assms by (cases e) (simp_all add: unserialize_def)

lemma unserialize_no_separator:
  "CHR ''_'' \<notin> set string \<Longrightarrow> unserialize S L current_app string secret = Inl ValueError"
  by (simp add: unserialize_def rsplit1_no_sep)

lemma ex_digest: "hexdigest example_library ''s3cr3t'' ''1a2b_3e8'' = ''2255''"
  by (simp add: hexdigest_def example_library_def hexlify_def hexdigit_def)

section \<open>The dictionary store and the session mapping\<close>

lemma del_keys_all: "distinct (map fst m) \<Longrightarrow> del_keys (map fst m) m = Inr []"
proof (induction m)
  case Nil
  then show ?case by simp
next
  case (Cons p m)
  obtain k v where p: "p = (k, v)"
    by (cases p)
  from Cons.prems p have notin: "k \<notin> fst ` set m" and dist: "distinct (map fst m)"
    by auto
  from notin have "AList.delete k m = m"
    by (rule delete_id)
  with Cons.IH [OF dist] p show ?case
    by simp
qed

lemma DictStore_get_after_put:
  "store_put DictStore d k v = Inr (k, AList.update k v d) \<and>
   store_get DictStore (AList.update k v d) k = Inr v"
  by (simp add: DictStore_def update_conv')

lemma DictStore_get_after_delete:
  "store_delete DictStore d k = Inr (AList.delete k d) \<and>
   store_get DictStore (AList.delete k d) k = Inl KeyError"
  by (simp add: DictStore_def delete_conv')

section \<open>The sweep over a dictionary store\<close>

lemma cleanup_loop_DictStore:
  "cleanup_loop DictStore now ks d
     = Inr (filter (\<lambda>(k, v). \<not> (k \<in> set ks \<and> expired_key now k)) d)"
proof (induction ks arbitrary: d)
  case Nil
  then show ?case by simp
next
  case (Cons key keys)
  show ?case
  proof (cases "expired_key now key")
    case True
    then obtain m where m: "key_regex_match key = Some m" and le: "int16 m \<le> now"
      by (auto simp: expired_key_def split: option.splits)
    have del: "store_delete DictStore d key = Inr (filter (\<lambda>(k, v). k \<noteq> key) d)"
      by (auto simp: DictStore_def AList.delete_eq intro: filter_cong)
    have "filter (\<lambda>(k, v). \<not> (k \<in> set keys \<and> expired_key now k)) (filter (\<lambda>(k, v). k \<noteq> key) d)
            = filter (\<lambda>(k, v). \<not> (k \<in> set (key # keys) \<and> expired_key now k)) d"
      using True by (auto intro: filter_cong)
    with m le del Cons.IH [of "filter (\<lambda>(k, v). k \<noteq> key) d"] show ?thesis
      by simp
  next
    case False
    have eq: "filter (\<lambda>(k, v). \<not> (k \<in> set keys \<and> expired_key now k)) d
            = filter (\<lambda>(k, v). \<not> (k \<in> set (key # keys) \<and> expired_key now k)) d"
      using False by (auto intro: filter_cong)
    from False have "cleanup_loop DictStore now (key # keys) d = cleanup_loop DictStore now keys d"
      by (auto simp: expired_key_def split: option.splits)
    with Cons.IH [of d] eq show ?thesis
      by simp
  qed
qed

lemma cleanup_sessions_DictStore:
  assumes "ks_app self = Some a" and "session_kvstore a = Some d"
  shows "cleanup_sessions DictStore now self
           = Inr (self\<lparr>ks_app := Some (a\<lparr>session_kvstore :=
                    Some (filter (\<lambda>(k, v). \<not> expired_key now k) d)\<rparr>)\<rparr>)"
proof -
  have k: "store_keys DictStore d = Inr (map fst d)"
    by (simp add: DictStore_def)
  have "filter (\<lambda>(k, v). \<not> (k \<in> set (map fst d) \<and> expired_key now k)) d
          = filter (\<lambda>(k, v). \<not> expired_key now k) d"
    by (rule filter_cong) force+
  with assms k cleanup_loop_DictStore [of now "map fst d" d] show ?thesis
    by (simp add: cleanup_sessions_def)
qed

lemma expired_key_shape:
  "expired_key now key \<longleftrightarrow>
     (\<exists>ident ex. ident \<noteq> [] \<and> list_all is_hex ident \<and> ex \<noteq> [] \<and> list_all is_hex ex \<and>
        (key = ident @ ''_'' @ ex \<or> key = ident @ ''_'' @ ex @ [CHR 0x0A]) \<and> int16 ex \<le> now)"
proof
  assume "expired_key now key"
  then obtain m where m: "key_regex_match key = Some m" and le: "int16 m \<le> now"
    by (auto simp: expired_key_def split: option.splits)
  from key_regex_match_SomeD [OF m] le
  show "\<exists>ident ex. ident \<noteq> [] \<and> list_all is_hex ident \<and> ex \<noteq> [] \<and> list_all is_hex ex \<and>
        (key = ident @ ''_'' @ ex \<or> key = ident @ ''_'' @ ex @ [CHR 0x0A]) \<and> int16 ex \<le> now"
    by blast
next
  assume "\<exists>ident ex. ident \<noteq> [] \<and> list_all is_hex ident \<and> ex \<noteq> [] \<and> list_all is_hex ex \<and>
        (key = ident @ ''_'' @ ex \<or> key = ident @ ''_'' @ ex @ [CHR 0x0A]) \<and> int16 ex \<le> now"
  then obtain ident ex where h: "ident \<noteq> []" "list_all is_hex ident" "ex \<noteq> []" "list_all is_hex ex"
    and k: "key = ident @ ''_'' @ ex \<or> key = ident @ ''_'' @ ex @ [CHR 0x0A]"
    and le: "int16 ex \<le> now"
    by blast
  from k have "key_regex_match key = Some ex"
  proof
    assume "key = ident @ ''_'' @ ex"
    with key_regex_match_shape [OF h(2) h(1) h(4) h(3)] show ?thesis by simp
  next
    assume "key = ident @ ''_'' @ ex @ [CHR 0x0A]"
    with key_regex_match_shape_newline [OF h(2) h(1) h(4) h(3)] show ?thesis by simp
  qed
  with le show "expired_key now key"
    by (simp add: expired_key_def)
qed

lemma expired_key_fmt:
  assumes "0 \<le> e" and "list_all is_hex ident" and "ident \<noteq> []"
  shows "expired_key now (ident @ ''_'' @ fmt_x e) \<longleftrightarrow> e \<le> now"
proof -
  have "key_regex_match (ident @ ''_'' @ hex_nat (nat e)) = Some (hex_nat (nat e))"
    using assms(2,3) by (intro key_regex_match_shape hex_nat_is_hex hex_nat_nonempty)
  with assms(1) show ?thesis
    by (simp add: expired_key_def fmt_x_nonneg int16_hex_nat)
qed

section \<open>Properties of generate_session_key\<close>

text \<open>
  Claim C7. For a random source that answers the request with a non-negative integer and an
  expiry that is absent or not before the epoch, \<open>generate_session_key\<close> returns a string
  of the form \<open>^[0-9a-f]+_[0-9a-f]+$\<close>, which \<open>key_regex\<close> matches, and whose second
  group parsed as hexadecimal is the epoch seconds of the expiry, \<open>0\<close> when it is
  \<open>None\<close>. With a source that returns \<open>0x1A2B\<close>, the expiry \<open>1000\<close> and \<open>16\<close> bits the
  key is \<open>1a2b_3e8\<close>.
\<close>

theorem generate_session_key_format:
  "(random_source bits = Inr idbits \<and> 0 \<le> idbits \<and> valid_expires timegm expires \<longrightarrow>
      (\<exists>ident ex.
          generate_session_key timegm random_source expires bits = Inr (ident @ ''_'' @ ex) \<and>
          ident \<noteq> [] \<and> list_all is_hex ident \<and> ex \<noteq> [] \<and> list_all is_hex ex \<and>
          key_regex_match (ident @ ''_'' @ ex) = Some ex \<and>
          int16 ex = (case expires of ExpNone \<Rightarrow> 0 | ExpInt n \<Rightarrow> n | ExpDatetime d \<Rightarrow> timegm d))) \<and>
   generate_session_key timegm (\<lambda>bits. Inr 0x1A2B) (ExpInt 1000) 16 = Inr ''1a2b_3e8''"
proof (intro conjI impI)
  assume h: "random_source bits = Inr idbits \<and> 0 \<le> idbits \<and> valid_expires timegm expires"
  define e where "e = (case expires of ExpNone \<Rightarrow> 0 | ExpInt n \<Rightarrow> n | ExpDatetime d \<Rightarrow> timegm d)"
  from h have e0: "0 \<le> e"
    by (auto simp: e_def valid_expires_def split: expires.splits)
  let ?ident = "hex_nat (nat idbits)" and ?ex = "hex_nat (nat e)"
  from h e0 have g: "generate_session_key timegm random_source expires bits = Inr (?ident @ ''_'' @ ?ex)"
    by (simp add: generate_session_key_def e_def[symmetric] fmt_x_nonneg)
  have m: "key_regex_match (?ident @ ''_'' @ ?ex) = Some ?ex"
    by (rule key_regex_match_shape) (simp_all add: hex_nat_is_hex hex_nat_nonempty)
  have p: "int16 ?ex = e"
    using e0 by (simp add: int16_hex_nat)
  show "\<exists>ident ex.
          generate_session_key timegm random_source expires bits = Inr (ident @ ''_'' @ ex) \<and>
          ident \<noteq> [] \<and> list_all is_hex ident \<and> ex \<noteq> [] \<and> list_all is_hex ex \<and>
          key_regex_match (ident @ ''_'' @ ex) = Some ex \<and>
          int16 ex = (case expires of ExpNone \<Rightarrow> 0 | ExpInt n \<Rightarrow> n | ExpDatetime d \<Rightarrow> timegm d)"
    using g m p hex_nat_is_hex hex_nat_nonempty unfolding e_def by blast
next
  show "generate_session_key timegm (\<lambda>bits. Inr 0x1A2B) (ExpInt 1000) 16 = Inr ''1a2b_3e8''"
    by (simp add: generate_session_key_def fmt_x_def hex_nat.simps hexdigit_def)
qed

theorem generate_session_key_format_witness:
  "valid_expires (\<lambda>d::unit. 0) (ExpInt 1000) \<and>
   (\<exists>ident ex.
      generate_session_key (\<lambda>d::unit. 0) (\<lambda>bits. Inr 0x1A2B) (ExpInt 1000) 16
        = Inr (ident @ ''_'' @ ex) \<and>
      ident \<noteq> [] \<and> list_all is_hex ident \<and> ex \<noteq> [] \<and> list_all is_hex ex \<and>
      key_regex_match (ident @ ''_'' @ ex) = Some ex \<and> int16 ex = 1000)"
proof -
  have v: "valid_expires (\<lambda>d::unit. 0) (ExpInt 1000)"
    by (simp add: valid_expires_def)
  from v generate_session_key_format
          [where random_source = "\<lambda>bits. Inr 0x1A2B" and bits = 16 and idbits = "0x1A2B"
             and timegm = "\<lambda>d::unit. 0" and expires = "ExpInt 1000", THEN conjunct1]
  show ?thesis by simp
qed

text \<open>
  The precondition on the expiry is needed: \<open>'%x'\<close> writes a negative integer with a minus
  sign, and \<open>key_regex\<close> does not match the resulting key.
\<close>

lemma generate_session_key_negative_expiry:
  "generate_session_key timegm (\<lambda>bits. Inr 0x1A2B) (ExpInt (- 1000)) 16 = Inr ''1a2b_-3e8'' \<and>
   key_regex_match ''1a2b_-3e8'' = None"
  by (simp add: generate_session_key_def fmt_x_def hex_nat.simps hexdigit_def
        key_regex_match_def is_hex_def)

section \<open>Properties of Session.unserialize\<close>

text \<open>
  Claim C4 says that \<open>unserialize\<close> never raises on a malformed token and returns an empty
  session, also for a token without an underscore. On the token \<open>abc\<close>, which holds no
  underscore, \<open>rsplit\<close> returns one part, the unpacking into \<open>key, mac_hexdigest\<close> fails and
  \<open>unserialize\<close> raises \<open>ValueError\<close>, whatever the store, the library and the secret.
\<close>

theorem unserialize_no_underscore_raises:
  "unserialize S L current_app ''abc'' secret = Inl ValueError"
  by (rule unserialize_no_separator) simp




text \<open>
  Claim C6. Take a token \<open>key_mac\<close> where \<open>mac\<close> is the hexadecimal HMAC digest of \<open>key\<close>
  under the secret, and replace one character of \<open>mac\<close> by a different one. With a digest of
  fixed length and a parent class that decodes the empty payload to the empty mapping,
  \<open>unserialize\<close> of the altered token does not raise and returns a session with an empty
  mapping, for every store and every application: the stored payload is never read. This
  includes the replacement by an underscore, which moves the split.
\<close>

theorem unserialize_tampered_mac:
  assumes len: "\<forall>k. length (hmac_digest L secret k) = n"
    and i: "i < length (hexdigest L secret key)"
    and c: "c \<noteq> hexdigest L secret key ! i"
    and empty: "super_unserialize L '''' secret = []"
  shows "\<exists>k'. unserialize S L current_app
                 (key @ ''_'' @ (hexdigest L secret key)[i := c]) secret
               = Inr \<lparr> items = [], secret_key = secret, kvstore_key = Some k' \<rparr>"
proof (cases "c = CHR ''_''")
  case False
  let ?mac = "hexdigest L secret key"
  have "set (?mac[i := c]) \<subseteq> insert c (set ?mac)"
    by (rule set_update_subset_insert)
  with False underscore_notin_hexdigest [of L secret key]
  have no: "CHR ''_'' \<notin> set (?mac[i := c])"
    by auto
  from i c have "?mac[i := c] ! i \<noteq> ?mac ! i"
    by simp
  then have ne: "?mac \<noteq> ?mac[i := c]"
    by metis
  from no have "rsplit1 CHR ''_'' (key @ ''_'' @ ?mac[i := c]) = [key, ?mac[i := c]]"
    by (simp add: rsplit1_last_sep)
  from unserialize_bad_mac [OF this ne, of S current_app] empty
  have "unserialize S L current_app (key @ ''_'' @ ?mac[i := c]) secret
          = Inr \<lparr> items = [], secret_key = secret, kvstore_key = Some key \<rparr>"
    by simp
  then show ?thesis
    by blast
next
  case True
  let ?mac = "hexdigest L secret key"
  let ?k = "key @ ''_'' @ take i ?mac"
  let ?m = "drop (Suc i) ?mac"
  from i have upd: "?mac[i := c] = take i ?mac @ c # ?m"
    by (rule upd_conv_take_nth_drop)
  have tok: "key @ ''_'' @ ?mac[i := c] = ?k @ CHR ''_'' # ?m"
    using upd True by simp
  have "set ?m \<subseteq> set ?mac"
    by (rule set_drop_subset)
  with underscore_notin_hexdigest [of L secret key] have no: "CHR ''_'' \<notin> set ?m"
    by auto
  have l1: "length (hexdigest L secret ?k) = 2 * n"
    using len by (simp add: length_hexdigest)
  have l2: "length ?mac = 2 * n"
    using len by (simp add: length_hexdigest)
  from i l2 have "length ?m < 2 * n"
    by simp
  with l1 have ne: "hexdigest L secret ?k \<noteq> ?m"
    by auto
  from no have "rsplit1 CHR ''_'' (?k @ CHR ''_'' # ?m) = [?k, ?m]"
    by (rule rsplit1_last_sep)
  from unserialize_bad_mac [OF this ne, of S current_app] empty tok
  have "unserialize S L current_app (key @ ''_'' @ ?mac[i := c]) secret
          = Inr \<lparr> items = [], secret_key = secret, kvstore_key = Some ?k \<rparr>"
    by simp
  then show ?thesis
    by blast
qed

theorem unserialize_tampered_mac_witness:
  "(\<forall>k. length (hmac_digest example_library ''s3cr3t'' k) = 2) \<and>
   1 < length (hexdigest example_library ''s3cr3t'' ''1a2b_3e8'') \<and>
   CHR ''3'' \<noteq> hexdigest example_library ''s3cr3t'' ''1a2b_3e8'' ! 1 \<and>
   super_unserialize example_library '''' ''s3cr3t'' = [] \<and>
   (\<exists>k'. unserialize DictStore example_library (example_app [(''1a2b_3e8'', ''user=bob&'')])
             (''1a2b_3e8'' @ ''_'' @ (hexdigest example_library ''s3cr3t'' ''1a2b_3e8'')[1 := CHR ''3''])
             ''s3cr3t''
           = Inr \<lparr> items = [], secret_key = ''s3cr3t'', kvstore_key = Some k' \<rparr>)"
proof -
  have a: "\<forall>k. length (hmac_digest example_library ''s3cr3t'' k) = 2"
    by (simp add: example_library_def)
  have b: "1 < length (hexdigest example_library ''s3cr3t'' ''1a2b_3e8'')"
    by (simp add: ex_digest)
  have c: "CHR ''3'' \<noteq> hexdigest example_library ''s3cr3t'' ''1a2b_3e8'' ! 1"
    by (simp add: ex_digest)
  have d: "super_unserialize example_library '''' ''s3cr3t'' = []"
    by (simp add: example_library_def)
  from a b c d
    unserialize_tampered_mac [OF a b c d, of DictStore "example_app [(''1a2b_3e8'', ''user=bob&'')]"]
  show ?thesis by blast
qed

text \<open>
  Claim C9. For a token whose MAC verifies: when the store's \<open>get\<close> raises \<open>KeyError\<close>,
  \<open>unserialize\<close> takes the payload to be empty and returns an empty session whose
  \<open>__kvstore_key\<close> is the key (the parent class decoding the empty payload to the empty
  mapping); when \<open>get\<close> raises any other exception, \<open>unserialize\<close> raises that exception.
\<close>

theorem unserialize_store_errors:
  assumes "session_kvstore current_app = Some st"
    and "super_unserialize L '''' secret = []"
  shows "(store_get S st key = Inl KeyError \<longrightarrow>
            unserialize S L current_app (key @ ''_'' @ hexdigest L secret key) secret
              = Inr \<lparr> items = [], secret_key = secret, kvstore_key = Some key \<rparr>) \<and>
         (\<forall>e. store_get S st key = Inl e \<and> e \<noteq> KeyError \<longrightarrow>
            unserialize S L current_app (key @ ''_'' @ hexdigest L secret key) secret = Inl e)"
proof -
  have sp: "rsplit1 CHR ''_'' (key @ ''_'' @ hexdigest L secret key) = [key, hexdigest L secret key]"
    using underscore_notin_hexdigest [of L secret key] by (simp add: rsplit1_last_sep)
  show ?thesis
  proof (intro conjI impI allI)
    assume "store_get S st key = Inl KeyError"
    from unserialize_missing [OF sp refl assms(1) this] assms(2)
    show "unserialize S L current_app (key @ ''_'' @ hexdigest L secret key) secret
            = Inr \<lparr> items = [], secret_key = secret, kvstore_key = Some key \<rparr>"
      by simp
  next
    fix e
    assume "store_get S st key = Inl e \<and> e \<noteq> KeyError"
    then have g: "store_get S st key = Inl e" and ne: "e \<noteq> KeyError"
      by simp_all
    from unserialize_store_error [OF sp refl assms(1) g ne]
    show "unserialize S L current_app (key @ ''_'' @ hexdigest L secret key) secret = Inl e" .
  qed
qed

theorem unserialize_store_errors_witness:
  "session_kvstore (example_app []) = Some [] \<and>
   super_unserialize example_library '''' ''s3cr3t'' = [] \<and>
   store_get DictStore [] ''1a2b_3e8'' = Inl KeyError \<and>
   unserialize DictStore example_library (example_app [])
       (''1a2b_3e8'' @ ''_'' @ hexdigest example_library ''s3cr3t'' ''1a2b_3e8'') ''s3cr3t''
     = Inr \<lparr> items = [], secret_key = ''s3cr3t'', kvstore_key = Some ''1a2b_3e8'' \<rparr> \<and>
   store_get faulty_store [] ''1a2b_3e8'' = Inl (StoreFault ''backend unreachable'') \<and>
   StoreFault ''backend unreachable'' \<noteq> KeyError \<and>
   unserialize faulty_store example_library (example_app [])
       (''1a2b_3e8'' @ ''_'' @ hexdigest example_library ''s3cr3t'' ''1a2b_3e8'') ''s3cr3t''
     = Inl (StoreFault ''backend unreachable'')"
proof -
  have a: "session_kvstore (example_app []) = Some []"
    by (simp add: example_app_def)
  have b: "super_unserialize example_library '''' ''s3cr3t'' = []"
    by (simp add: example_library_def)
  have c: "store_get DictStore [] ''1a2b_3e8'' = Inl KeyError"
    by (simp add: DictStore_def)
  have d: "store_get faulty_store [] ''1a2b_3e8'' = Inl (StoreFault ''backend unreachable'')"
    by (simp add: faulty_store_def)
  have e: "StoreFault ''backend unreachable'' \<noteq> KeyError"
    by simp
  from a b c d e
    unserialize_store_errors [OF a b, of DictStore "''1a2b_3e8''"]
    unserialize_store_errors [OF a b, of faulty_store "''1a2b_3e8''"]
  show ?thesis by blast
qed

section \<open>Properties of Session.serialize and Session.destroy\<close>

text \<open>
  Claim C2. On a dictionary store and an initialised application whose random source answers,
  for a session whose mapping the parent class serialises to a payload that it decodes back to
  the same mapping: \<open>serialize\<close> returns a token, and \<open>unserialize\<close> of that token with the same
  secret, on the store as \<open>serialize\<close> left it, returns a session with the original mapping.
  The key inside the token contains an underscore, and the token is split once, at its last
  underscore, into that key and the MAC.
\<close>

theorem serialize_unserialize_roundtrip:
  assumes ser: "super_serialize L (secret_key self) (items self) expires = Inr sdata"
    and unser: "super_unserialize L sdata (secret_key self) = items self"
    and st: "session_kvstore current_app = Some d"
    and rs: "SESSION_RANDOM_SOURCE current_app = Some rs"
    and bits: "SESSION_KEY_BITS current_app = Some bits"
    and rnd: "rs bits = Inr idbits"
  shows "\<exists>key token app'.
           serialize DictStore L current_app self expires = Inr (token, app') \<and>
           CHR ''_'' \<in> set key \<and>
           rsplit1 CHR ''_'' token = [key, hexdigest L (secret_key self) key] \<and>
           unserialize DictStore L app' token (secret_key self)
             = Inr \<lparr> items = items self, secret_key = secret_key self,
                     kvstore_key = Some key \<rparr>"
proof -
  obtain k where gen: "generate_session_key (timegm_utc L) rs expires bits = Inr k"
    and und: "CHR ''_'' \<in> set k"
    using rnd by (auto simp: generate_session_key_def)
  let ?secret = "secret_key self"
  let ?d' = "AList.update k sdata d"
  let ?app' = "current_app\<lparr>session_kvstore := Some ?d'\<rparr>"
  let ?token = "k @ ''_'' @ hexdigest L ?secret k"
  from ser st rs bits gen DictStore_get_after_put [of d k sdata]
  have s: "serialize DictStore L current_app self expires = Inr (?token, ?app')"
    by (simp add: serialize_def)
  have sp: "rsplit1 CHR ''_'' ?token = [k, hexdigest L ?secret k]"
    using underscore_notin_hexdigest [of L ?secret k] by (simp add: rsplit1_last_sep)
  have a: "session_kvstore ?app' = Some ?d'"
    by simp
  have g: "store_get DictStore ?d' k = Inr sdata"
    using DictStore_get_after_put [of d k sdata] by simp
  from unserialize_found [OF sp refl a g] unser
  have u: "unserialize DictStore L ?app' ?token ?secret
             = Inr \<lparr> items = items self, secret_key = ?secret, kvstore_key = Some k \<rparr>"
    by simp
  from s und sp u show ?thesis
    by blast
qed

theorem serialize_unserialize_roundtrip_witness:
  "super_serialize example_library ''s3cr3t'' [(''user'', ''bob'')] (ExpInt 1000) = Inr ''user=bob&'' \<and>
   super_unserialize example_library ''user=bob&'' ''s3cr3t'' = [(''user'', ''bob'')] \<and>
   (\<exists>key token app'.
      serialize DictStore example_library (example_app [])
          \<lparr> items = [(''user'', ''bob'')], secret_key = ''s3cr3t'', kvstore_key = None \<rparr>
          (ExpInt 1000) = Inr (token, app') \<and>
      CHR ''_'' \<in> set key \<and>
      rsplit1 CHR ''_'' token = [key, hexdigest example_library ''s3cr3t'' key] \<and>
      unserialize DictStore example_library app' token ''s3cr3t''
        = Inr \<lparr> items = [(''user'', ''bob'')], secret_key = ''s3cr3t'', kvstore_key = Some key \<rparr>)"
proof -
  let ?s = "\<lparr> items = [(''user'', ''bob'')], secret_key = ''s3cr3t'', kvstore_key = None \<rparr>"
  have a: "super_serialize example_library (secret_key ?s) (items ?s) (ExpInt 1000) = Inr ''user=bob&''"
    by (simp add: example_library_def encode_pairs_def)
  have b: "super_unserialize example_library ''user=bob&'' (secret_key ?s) = items ?s"
    by (simp add: example_library_def)
  have c: "session_kvstore (example_app []) = Some []"
    and d: "SESSION_RANDOM_SOURCE (example_app []) = Some (\<lambda>bits. Inr 0x1A2B)"
    and e: "SESSION_KEY_BITS (example_app []) = Some 16"
    by (simp_all add: example_app_def)
  have f: "(\<lambda>bits::int. Inr 0x1A2B :: exn + int) 16 = Inr 0x1A2B"
    by simp
  from a b serialize_unserialize_roundtrip [OF a b c d e f]
  show ?thesis by simp
qed

text \<open>
  Claim C8, as the code has it. For a session that carries a \<open>__kvstore_key\<close> (one returned by
  \<open>unserialize\<close>), on a dictionary store: \<open>destroy\<close> removes every key of the session's
  mapping and deletes the entry under that key from the store, so that afterwards the mapping
  is empty and \<open>get\<close> of the key fails with not-found.
\<close>

theorem destroy_clears_session_and_store:
  assumes "kvstore_key self = Some k"
    and "distinct (map fst (items self))"
    and "session_kvstore current_app = Some d"
  shows "\<exists>d'. destroy DictStore current_app self
                 = Inr (self\<lparr>items := []\<rparr>, current_app\<lparr>session_kvstore := Some d'\<rparr>) \<and>
              store_get DictStore d' k = Inl KeyError"
proof -
  from assms(2) have "del_keys (map fst (items self)) (items self) = Inr []"
    by (rule del_keys_all)
  with assms(1,3) DictStore_get_after_delete [of d k]
  have "destroy DictStore current_app self
          = Inr (self\<lparr>items := []\<rparr>, current_app\<lparr>session_kvstore := Some (AList.delete k d)\<rparr>)"
    by (simp add: destroy_def)
  with DictStore_get_after_delete [of d k] show ?thesis
    by blast
qed

theorem destroy_clears_session_and_store_witness:
  "kvstore_key \<lparr> items = [(''user'', ''bob'')], secret_key = ''s3cr3t'',
                   kvstore_key = Some ''1a2b_3e8'' \<rparr> = Some ''1a2b_3e8'' \<and>
   distinct (map fst (items \<lparr> items = [(''user'', ''bob'')], secret_key = ''s3cr3t'',
                   kvstore_key = Some ''1a2b_3e8'' \<rparr>)) \<and>
   session_kvstore (example_app [(''1a2b_3e8'', ''user=bob&'')]) = Some [(''1a2b_3e8'', ''user=bob&'')] \<and>
   (\<exists>d'. destroy DictStore (example_app [(''1a2b_3e8'', ''user=bob&'')])
             \<lparr> items = [(''user'', ''bob'')], secret_key = ''s3cr3t'',
               kvstore_key = Some ''1a2b_3e8'' \<rparr>
           = Inr (\<lparr> items = [(''user'', ''bob'')], secret_key = ''s3cr3t'',
                     kvstore_key = Some ''1a2b_3e8'' \<rparr>\<lparr>items := []\<rparr>,
                  (example_app [(''1a2b_3e8'', ''user=bob&'')])\<lparr>session_kvstore := Some d'\<rparr>) \<and>
         store_get DictStore d' ''1a2b_3e8'' = Inl KeyError)"
proof -
  let ?s = "\<lparr> items = [(''user'', ''bob'')], secret_key = ''s3cr3t'',
               kvstore_key = Some ''1a2b_3e8'' \<rparr>"
  let ?d = "[(''1a2b_3e8'', ''user=bob&'')]"
  have a: "kvstore_key ?s = Some ''1a2b_3e8''" by simp
  have b: "distinct (map fst (items ?s))" by simp
  have c: "session_kvstore (example_app ?d) = Some ?d" by (simp add: example_app_def)
  from a b c destroy_clears_session_and_store [OF a b c]
  show ?thesis by blast
qed

text \<open>
  A new session that has been serialised to the store, and was not loaded from it, has no
  \<open>__kvstore_key\<close>: \<open>serialize\<close> does not assign the attribute. \<open>destroy\<close> of that session
  raises \<open>AttributeError\<close>, and the entry that \<open>serialize\<close> wrote stays in the store.
\<close>

theorem destroy_after_serialize_raises:
  "serialize DictStore example_library (example_app [])
       \<lparr> items = [(''user'', ''bob'')], secret_key = ''s3cr3t'', kvstore_key = None \<rparr>
       (ExpInt 1000)
     = Inr (''1a2b_3e8_2255'', example_app [(''1a2b_3e8'', ''user=bob&'')]) \<and>
   destroy DictStore (example_app [(''1a2b_3e8'', ''user=bob&'')])
       \<lparr> items = [(''user'', ''bob'')], secret_key = ''s3cr3t'', kvstore_key = None \<rparr>
     = Inl AttributeError \<and>
   store_get DictStore [(''1a2b_3e8'', ''user=bob&'')] ''1a2b_3e8'' = Inr ''user=bob&''"
proof -
  have k: "generate_session_key (\<lambda>d. d) (\<lambda>bits. Inr 0x1A2B) (ExpInt 1000) 16 = Inr ''1a2b_3e8''"
    by (simp add: generate_session_key_def fmt_x_def hex_nat.simps hexdigit_def)
  have t: "timegm_utc example_library = (\<lambda>d. d)"
    and s: "super_serialize example_library ''s3cr3t'' [(''user'', ''bob'')] (ExpInt 1000)
              = Inr ''user=bob&''"
    by (simp_all add: example_library_def encode_pairs_def)
  have 1: "serialize DictStore example_library (example_app [])
       \<lparr> items = [(''user'', ''bob'')], secret_key = ''s3cr3t'', kvstore_key = None \<rparr>
       (ExpInt 1000)
     = Inr (''1a2b_3e8_2255'', example_app [(''1a2b_3e8'', ''user=bob&'')])"
    using ex_digest by (simp add: serialize_def t s k example_app_def DictStore_def)
  have 2: "destroy DictStore (example_app [(''1a2b_3e8'', ''user=bob&'')])
       \<lparr> items = [(''user'', ''bob'')], secret_key = ''s3cr3t'', kvstore_key = None \<rparr>
     = Inl AttributeError"
    by (simp add: destroy_def example_app_def)
  have 3: "store_get DictStore [(''1a2b_3e8'', ''user=bob&'')] ''1a2b_3e8'' = Inr ''user=bob&''"
    by (simp add: DictStore_def)
  from 1 2 3 show ?thesis by simp
qed

section \<open>Properties of KVSession.cleanup_sessions\<close>

text \<open>
  Claim C1 says that the sweep deletes a key only when its expiry component is nonzero and
  has been reached, so that \<open>a1_0\<close>, the key of a session without expiry, stays.
  \<open>generate_session_key\<close> writes the expiry \<open>0\<close> for a session without expiry, and the loop
  tests \<open>current_time >= key_expiry_time\<close> alone. At the time \<open>1000\<close>, with \<open>past = 999\<close> and
  \<open>future = 2000\<close>, the sweep over the keys \<open>a1_0\<close>, \<open>b2_3e7\<close>, \<open>c3_7d0\<close> and
  \<open>not_a_valid_key_format\<close> deletes \<open>a1_0\<close> together with \<open>b2_3e7\<close>. The entry that
  \<open>serialize\<close> writes for a session with \<open>expires=None\<close>, under the key \<open>1a2b_0\<close>, is deleted
  by the next sweep.
\<close>

theorem cleanup_sessions_deletes_zero_expiry:
  "cleanup_sessions DictStore 1000
       \<lparr>ks_app = Some (example_app
          [(''a1_0'', ''A''), (''b2_3e7'', ''B''), (''c3_7d0'', ''C''),
           (''not_a_valid_key_format'', ''D'')])\<rparr>
     = Inr \<lparr>ks_app = Some (example_app
          [(''c3_7d0'', ''C''), (''not_a_valid_key_format'', ''D'')])\<rparr> \<and>
   serialize DictStore example_library (example_app [])
       \<lparr> items = [(''user'', ''bob'')], secret_key = ''s3cr3t'', kvstore_key = None \<rparr>
       ExpNone
     = Inr (''1a2b_0_22b5'', example_app [(''1a2b_0'', ''user=bob&'')]) \<and>
   cleanup_sessions DictStore 1000 \<lparr>ks_app = Some (example_app [(''1a2b_0'', ''user=bob&'')])\<rparr>
     = Inr \<lparr>ks_app = Some (example_app [])\<rparr>"
proof -
  have 1: "cleanup_sessions DictStore 1000
       \<lparr>ks_app = Some (example_app
          [(''a1_0'', ''A''), (''b2_3e7'', ''B''), (''c3_7d0'', ''C''),
           (''not_a_valid_key_format'', ''D'')])\<rparr>
     = Inr \<lparr>ks_app = Some (example_app
          [(''c3_7d0'', ''C''), (''not_a_valid_key_format'', ''D'')])\<rparr>"
    by (simp add: cleanup_sessions_def DictStore_def example_app_def key_regex_match_def
          is_hex_def int16_def hexval_def)
  have k: "generate_session_key (\<lambda>d. d) (\<lambda>bits. Inr 0x1A2B) (ExpNone :: int expires) 16
             = Inr ''1a2b_0''"
    by (simp add: generate_session_key_def fmt_x_def hex_nat.simps hexdigit_def)
  have t: "timegm_utc example_library = (\<lambda>d. d)"
    and s: "super_serialize example_library ''s3cr3t'' [(''user'', ''bob'')] ExpNone
              = Inr ''user=bob&''"
    by (simp_all add: example_library_def encode_pairs_def)
  have m: "hexdigest example_library ''s3cr3t'' ''1a2b_0'' = ''22b5''"
    by (simp add: hexdigest_def example_library_def hexlify_def hexdigit_def)
  have 2: "serialize DictStore example_library (example_app [])
       \<lparr> items = [(''user'', ''bob'')], secret_key = ''s3cr3t'', kvstore_key = None \<rparr>
       ExpNone
     = Inr (''1a2b_0_22b5'', example_app [(''1a2b_0'', ''user=bob&'')])"
    using m by (simp add: serialize_def t s k example_app_def DictStore_def)
  have 3: "cleanup_sessions DictStore 1000
       \<lparr>ks_app = Some (example_app [(''1a2b_0'', ''user=bob&'')])\<rparr>
     = Inr \<lparr>ks_app = Some (example_app [])\<rparr>"
    by (simp add: cleanup_sessions_def DictStore_def example_app_def key_regex_match_def
          is_hex_def int16_def hexval_def)
  from 1 2 3 show ?thesis by simp
qed

text \<open>
  For every other key the sweep on a dictionary store does what the claim says: an entry whose
  key \<open>key_regex\<close> does not match stays as it is, an entry whose key encodes a nonzero expiry
  stays exactly when the current time is before that expiry, and nothing is added.
\<close>

lemma cleanup_sessions_nonzero_expiry:
  assumes "ks_app self = Some a" and "session_kvstore a = Some d"
  shows "\<exists>d'. cleanup_sessions DictStore now self
                 = Inr (self\<lparr>ks_app := Some (a\<lparr>session_kvstore := Some d'\<rparr>)\<rparr>) \<and>
              set d' \<subseteq> set d \<and>
              (\<forall>k v. (k, v) \<in> set d \<and> key_regex_match k = None \<longrightarrow> (k, v) \<in> set d') \<and>
              (\<forall>k v ex. (k, v) \<in> set d \<and> key_regex_match k = Some ex \<and> int16 ex \<noteq> 0 \<longrightarrow>
                  ((k, v) \<in> set d' \<longleftrightarrow> now < int16 ex))"
proof -
  let ?d' = "filter (\<lambda>(k, v). \<not> expired_key now k) d"
  from cleanup_sessions_DictStore [OF assms, of now]
  have c: "cleanup_sessions DictStore now self
             = Inr (self\<lparr>ks_app := Some (a\<lparr>session_kvstore := Some ?d'\<rparr>)\<rparr>)" .
  have s: "set ?d' \<subseteq> set d"
    by auto
  have n: "\<forall>k v. (k, v) \<in> set d \<and> key_regex_match k = None \<longrightarrow> (k, v) \<in> set ?d'"
    by (auto simp: expired_key_def)
  have e: "\<forall>k v ex. (k, v) \<in> set d \<and> key_regex_match k = Some ex \<and> int16 ex \<noteq> 0 \<longrightarrow>
                  ((k, v) \<in> set ?d' \<longleftrightarrow> now < int16 ex)"
    by (auto simp: expired_key_def)
  from c s n e show ?thesis
    by blast
qed

text \<open>
  The comparison is \<open>>=\<close>: a key is deleted from the second of its expiry on.
\<close>

lemma cleanup_sessions_at_expiry:
  "cleanup_sessions DictStore 1000 \<lparr>ks_app = Some (example_app [(''c3_3e8'', ''C'')])\<rparr>
     = Inr \<lparr>ks_app = Some (example_app [])\<rparr>"
  by (simp add: cleanup_sessions_def DictStore_def example_app_def key_regex_match_def
        is_hex_def int16_def hexval_def)

section \<open>Properties of the KVSession constructor\<close>

text \<open>
  Claim C10. Constructing \<open>KVSession(session_kvstore, app=None)\<close> raises
  \<open>AttributeError\<close>, whatever the store: the constructor assigns
  \<open>app.session_kvstore\<close> before it tests \<open>app\<close>, so deferred initialisation is not
  reachable through the constructor.
\<close>

theorem KVSession_init_None: "KVSession_init system_random kvstore None = Inl AttributeError"
  by (simp add: KVSession_init_def)

end
